theory Spec2Isabelle
  imports Complex_Main "HOL-Library.Sublist"
begin

section \<open>Conventions of the embedding\<close>

text \<open>
  The Python sources are embedded function by function.  An object is a record, a method
  takes the object and returns it updated together with the method's return value.
  A dictionary whose keys are optional (\<^verbatim>\<open>'key' in d\<close>) is a record of
  \<open>option\<close> fields or a map; a dictionary that is iterated is an association list in
  insertion order.  Python \<^verbatim>\<open>float\<close> values are modelled as \<^typ>\<open>real\<close> numbers, so
  \<^verbatim>\<open>+\<close>, \<^verbatim>\<open>*\<close> and \<^verbatim>\<open>/\<close> are exact.  Values read from the clock
  (\<^verbatim>\<open>datetime.now()\<close>) and from the random generator (\<^verbatim>\<open>random.random()\<close>)
  are parameters of the function that reads them.
\<close>

section \<open>\<^verbatim>\<open>app/models/transaction.py\<close>: class Transaction\<close>

text \<open>The status constants of the class; the status itself is a Python string.\<close>

definition STATUS_PENDING :: string where
  "STATUS_PENDING = ''pending''"

definition STATUS_COMPLETED :: string where
  "STATUS_COMPLETED = ''completed''"

definition STATUS_FAILED :: string where
  "STATUS_FAILED = ''failed''"

definition STATUS_BLOCKED :: string where
  "STATUS_BLOCKED = ''blocked''"

definition STATUS_UNDER_REVIEW :: string where
  "STATUS_UNDER_REVIEW = ''under_review''"

text \<open>The values stored in \<^verbatim>\<open>metadata\<close>: timestamps and reasons are strings, the
  risk score is a float.\<close>

datatype meta_value = MStr string | MFloat real

record transaction =
  transaction_id :: string
  sender_id :: int
  receiver_id :: int
  amount :: real
  timestamp :: string
  status :: string
  description :: string
  risk_score :: real
  metadata :: "string \<rightharpoonup> meta_value"

text \<open>\<^verbatim>\<open>__init__\<close>; the generated uuid (or the given id) and the clock are parameters.\<close>

definition new_transaction :: "string \<Rightarrow> string \<Rightarrow> int \<Rightarrow> int \<Rightarrow> real \<Rightarrow> string \<Rightarrow> transaction" where
  "new_transaction tid now sid rid amt descr =
     \<lparr>transaction_id = tid, sender_id = sid, receiver_id = rid, amount = amt,
      timestamp = now, status = STATUS_PENDING, description = descr, risk_score = 0,
      metadata = Map.empty\<rparr>"

text \<open>The four transition methods.  Each returns the method's boolean and the object
  after the call; \<open>now\<close> is \<^verbatim>\<open>datetime.now().isoformat()\<close>.\<close>

definition complete :: "string \<Rightarrow> transaction \<Rightarrow> bool \<times> transaction" where
  "complete now t =
     (if status t = STATUS_PENDING
      then (True, t\<lparr>status := STATUS_COMPLETED,
                    metadata := (metadata t)(''completed_at'' \<mapsto> MStr now)\<rparr>)
      else (False, t))"

definition fail :: "string \<Rightarrow> string \<Rightarrow> transaction \<Rightarrow> bool \<times> transaction" where
  "fail now reason t =
     (if status t \<noteq> STATUS_COMPLETED
      then (True, t\<lparr>status := STATUS_FAILED,
                    metadata := (metadata t)(''failed_at'' \<mapsto> MStr now,
                                             ''failure_reason'' \<mapsto> MStr reason)\<rparr>)
      else (False, t))"

definition block :: "string \<Rightarrow> string \<Rightarrow> transaction \<Rightarrow> bool \<times> transaction" where
  "block now reason t =
     (if status t = STATUS_PENDING
      then (True, t\<lparr>status := STATUS_BLOCKED,
                    metadata := (metadata t)(''blocked_at'' \<mapsto> MStr now,
                                             ''block_reason'' \<mapsto> MStr reason)\<rparr>)
      else (False, t))"

definition flag_for_review :: "string \<Rightarrow> real \<Rightarrow> transaction \<Rightarrow> bool \<times> transaction" where
  "flag_for_review now score t =
     (if status t = STATUS_PENDING
      then (True, t\<lparr>status := STATUS_UNDER_REVIEW,
                    risk_score := score,
                    metadata := (metadata t)(''flagged_at'' \<mapsto> MStr now,
                                             ''risk_score'' \<mapsto> MFloat score)\<rparr>)
      else (False, t))"

text \<open>A sequence of transition calls on one transaction: each call is one of the four
  methods with its arguments; the run collects the returned booleans in call order.\<close>

datatype transition_call =
    Complete string
  | Fail string string
  | Block string string
  | FlagForReview string real

fun call_transition :: "transition_call \<Rightarrow> transaction \<Rightarrow> bool \<times> transaction" where
  "call_transition (Complete now) t = complete now t"
| "call_transition (Fail now reason) t = fail now reason t"
| "call_transition (Block now reason) t = block now reason t"
| "call_transition (FlagForReview now score) t = flag_for_review now score t"

fun run_transitions :: "transition_call list \<Rightarrow> transaction \<Rightarrow> bool list \<times> transaction" where
  "run_transitions [] t = ([], t)"
| "run_transitions (c # cs) t =
     (let (ok, t') = call_transition c t;
          (oks, t'') = run_transitions cs t'
      in (ok # oks, t''))"

section \<open>\<^verbatim>\<open>app/security/proactive_defense_system.py\<close>: class ProactiveDefenseSystem\<close>

definition THREAT_LEVEL_LOW :: int where
  "THREAT_LEVEL_LOW = 1"

definition THREAT_LEVEL_MEDIUM :: int where
  "THREAT_LEVEL_MEDIUM = 2"

definition THREAT_LEVEL_HIGH :: int where
  "THREAT_LEVEL_HIGH = 3"

definition THREAT_LEVEL_CRITICAL :: int where
  "THREAT_LEVEL_CRITICAL = 4"

text \<open>The \<^verbatim>\<open>activity_data\<close> dictionary: the three keys \<^verbatim>\<open>detect_threat\<close> looks
  at, each present or absent.  The transaction is itself a dictionary, read with
  \<^verbatim>\<open>transaction.get('amount', 0)\<close>.\<close>

record activity_transaction =
  txn_amount :: "real option"

record activity_data =
  act_login_attempts :: "int option"
  act_transaction :: "activity_transaction option"
  act_ip_address :: "string option"

text \<open>The three formatted evidence strings, kept with the value they interpolate.\<close>

datatype evidence =
    LoginAttemptsInQuickSuccession int
  | UnusuallyLargeTransaction real
  | AccessAttemptFromBlockedIP string

record threat_details =
  td_type :: string
  td_severity :: string
  td_evidence :: evidence

record threat_record =
  tr_timestamp :: string
  tr_details :: threat_details
  tr_activity_data :: activity_data

record access_data =
  acc_ip_address :: "string option"
  acc_reason :: "string option"

text \<open>Entries of \<^verbatim>\<open>security_alerts\<close>: the alert of a detection (timestamp, threat
  level, details, status) and the record of a blocking action (timestamp, action,
  details, status).\<close>

datatype security_alert =
    DetectionAlert string int threat_details string
  | ActionAlert string string access_data string

record defense_system =
  threat_level :: int
  response_plan :: string
  active_threats :: "threat_record list"
  blocked_ips :: "string list"
  security_alerts :: "security_alert list"
  last_scan_time :: string

definition new_defense_system :: "string \<Rightarrow> defense_system" where
  "new_defense_system now =
     \<lparr>threat_level = THREAT_LEVEL_LOW, response_plan = ''Standard monitoring'',
      active_threats = [], blocked_ips = [], security_alerts = [], last_scan_time = now\<rparr>"

text \<open>\<^verbatim>\<open>_update_response_plan\<close>: an if/elif chain without else.\<close>

definition update_response_plan :: "defense_system \<Rightarrow> defense_system" where
  "update_response_plan s =
     (if threat_level s = THREAT_LEVEL_LOW then
        s\<lparr>response_plan := ''Standard monitoring''\<rparr>
      else if threat_level s = THREAT_LEVEL_MEDIUM then
        s\<lparr>response_plan := ''Enhanced monitoring, notify security team''\<rparr>
      else if threat_level s = THREAT_LEVEL_HIGH then
        s\<lparr>response_plan :=
          ''Block suspicious activity, require additional authentication, alert security team''\<rparr>
      else if threat_level s = THREAT_LEVEL_CRITICAL then
        s\<lparr>response_plan :=
          ''Lockdown affected systems, block all suspicious IPs, immediate security team response''\<rparr>
      else s)"

text \<open>The local variables \<^verbatim>\<open>threat_detected\<close> and \<^verbatim>\<open>threat_details\<close> of
  \<^verbatim>\<open>detect_threat\<close> (the empty dictionary is \<open>None\<close>: every rule that fires writes
  all three keys), threaded with the object through the three checks.\<close>

type_synonym detection = "bool \<times> threat_details option \<times> defense_system"

definition check_login_attempts :: "activity_data \<Rightarrow> detection \<Rightarrow> detection" where
  "check_login_attempts a d =
     (case d of (detected, details, s) \<Rightarrow>
        (case act_login_attempts a of
           None \<Rightarrow> d
         | Some login_attempts \<Rightarrow>
             if login_attempts > 5 then
               (True,
                Some \<lparr>td_type = ''brute_force_attempt'', td_severity = ''high'',
                      td_evidence = LoginAttemptsInQuickSuccession login_attempts\<rparr>,
                s\<lparr>threat_level := THREAT_LEVEL_HIGH\<rparr>)
             else d))"

text \<open>\<open>rnd\<close> is the value \<^verbatim>\<open>random.random()\<close> returns when it is called.\<close>

definition check_transaction :: "real \<Rightarrow> activity_data \<Rightarrow> detection \<Rightarrow> detection" where
  "check_transaction rnd a d =
     (case d of (detected, details, s) \<Rightarrow>
        (case act_transaction a of
           None \<Rightarrow> d
         | Some txn \<Rightarrow>
             let amount = (case txn_amount txn of None \<Rightarrow> 0 | Some x \<Rightarrow> x) in
             if amount > 10000 then
               (if rnd < 0.3 then
                  (True,
                   Some \<lparr>td_type = ''unusual_transaction'', td_severity = ''medium'',
                         td_evidence = UnusuallyLargeTransaction amount\<rparr>,
                   s\<lparr>threat_level := THREAT_LEVEL_MEDIUM\<rparr>)
                else d)
             else d))"

definition check_ip_address :: "activity_data \<Rightarrow> detection \<Rightarrow> detection" where
  "check_ip_address a d =
     (case d of (detected, details, s) \<Rightarrow>
        (case act_ip_address a of
           None \<Rightarrow> d
         | Some ip \<Rightarrow>
             if ip \<in> set (blocked_ips s) then
               (True,
                Some \<lparr>td_type = ''blocked_ip_access'', td_severity = ''critical'',
                      td_evidence = AccessAttemptFromBlockedIP ip\<rparr>,
                s\<lparr>threat_level := THREAT_LEVEL_CRITICAL\<rparr>)
             else d))"

text \<open>The dictionary \<^verbatim>\<open>detect_threat\<close> returns beside the boolean.\<close>

record threat_info =
  ti_threat_detected :: bool
  ti_threat_level :: int
  ti_threat_details :: "threat_details option"
  ti_response_plan :: string

text \<open>\<^verbatim>\<open>detect_threat\<close>.  \<open>now_threat\<close> and \<open>now_alert\<close> are the two clock readings
  taken when a threat is recorded.\<close>

definition detect_threat ::
  "string \<Rightarrow> string \<Rightarrow> real \<Rightarrow> activity_data \<Rightarrow> defense_system
     \<Rightarrow> (bool \<times> threat_info) \<times> defense_system" where
  "detect_threat now_threat now_alert rnd a s0 =
     (case check_ip_address a (check_transaction rnd a (check_login_attempts a (False, None, s0)))
      of (threat_detected, details, s1) \<Rightarrow>
        let s4 =
          (if threat_detected then
             (case details of
                None \<Rightarrow> s1
              | Some td \<Rightarrow>
                  let s2 = s1\<lparr>active_threats := active_threats s1 @
                               [\<lparr>tr_timestamp = now_threat, tr_details = td,
                                 tr_activity_data = a\<rparr>]\<rparr>;
                      s3 = update_response_plan s2
                  in s3\<lparr>security_alerts := security_alerts s3 @
                           [DetectionAlert now_alert (threat_level s3) td ''new'']\<rparr>)
           else s1)
        in ((threat_detected,
             \<lparr>ti_threat_detected = threat_detected,
              ti_threat_level = threat_level s4,
              ti_threat_details = (if threat_detected then details else None),
              ti_response_plan = response_plan s4\<rparr>),
            s4))"

text \<open>\<^verbatim>\<open>block_access\<close>: appends the address unless it is already listed, records the
  action, returns true.\<close>

definition block_access :: "string \<Rightarrow> access_data \<Rightarrow> defense_system \<Rightarrow> bool \<times> defense_system" where
  "block_access now acc s =
     (let s1 = (case acc_ip_address acc of
                  None \<Rightarrow> s
                | Some ip \<Rightarrow>
                    if ip \<notin> set (blocked_ips s)
                    then s\<lparr>blocked_ips := blocked_ips s @ [ip]\<rparr> else s)
      in (True, s1\<lparr>security_alerts := security_alerts s1 @
                     [ActionAlert now ''block_access'' acc ''resolved'']\<rparr>))"

text \<open>A sequence of activity events handed to \<^verbatim>\<open>detect_threat\<close> one after the other,
  each with its clock readings and random draw.\<close>

type_synonym activity_event = "string \<times> string \<times> real \<times> activity_data"

fun detect_threats :: "activity_event list \<Rightarrow> defense_system \<Rightarrow> defense_system" where
  "detect_threats [] s = s"
| "detect_threats ((now_threat, now_alert, rnd, a) # es) s =
     detect_threats es (snd (detect_threat now_threat now_alert rnd a s))"

section \<open>\<^verbatim>\<open>app/security/authentication_system.py\<close>: class AuthenticationSystem\<close>

text \<open>The login dictionary built by the login interface (\<^verbatim>\<open>user_data\<close> of
  \<^verbatim>\<open>authenticate\<close>, \<^verbatim>\<open>current_data\<close> of \<^verbatim>\<open>compare_with_current\<close>): string values
  under optional keys.  A value is falsy (\<^verbatim>\<open>not user_data["face_data"]\<close>) when it is the
  empty string.\<close>

record login_data =
  ld_username :: "string option"
  ld_password :: "string option"
  ld_face_data :: "string option"
  ld_typing_pattern :: "string option"
  ld_ip_address :: "string option"
  ld_device_info :: "string option"
  ld_location :: "string option"

text \<open>A \<^verbatim>\<open>datetime\<close>, as far as the code reads it: its hour and its ISO rendering.\<close>

record datetime =
  dt_hour :: nat
  dt_isoformat :: string

record authentication_entry =
  ae_timestamp :: datetime
  ae_device :: string
  ae_location :: string
  ae_risk_level :: real
  ae_success :: bool

record authentication_system =
  login_time :: datetime
  login_device :: string
  login_location :: string
  risk_factors :: "string list"
  authentication_history :: "authentication_entry list"

text \<open>\<^verbatim>\<open>__init__\<close>: \<^verbatim>\<open>login_time\<close> is the clock at construction and is not read
  again.\<close>

definition new_authentication_system :: "datetime \<Rightarrow> authentication_system" where
  "new_authentication_system now =
     \<lparr>login_time = now, login_device = [], login_location = [], risk_factors = [],
      authentication_history = []\<rparr>"

text \<open>\<^verbatim>\<open>"k" not in user_data or not user_data["k"]\<close> for a string-valued key.\<close>

definition missing_or_empty :: "string option \<Rightarrow> bool" where
  "missing_or_empty v = (case v of None \<Rightarrow> True | Some x \<Rightarrow> x = [])"

text \<open>\<^verbatim>\<open>evaluate_risk\<close>: resets \<^verbatim>\<open>risk_factors\<close>, accumulates \<^verbatim>\<open>risk_level\<close> from
  0.0 through the three checks in order, and returns \<^verbatim>\<open>min(risk_level, 1.0)\<close>.\<close>

definition evaluate_risk :: "login_data \<Rightarrow> authentication_system \<Rightarrow> real \<times> authentication_system" where
  "evaluate_risk user_data a0 =
     (let a1 = a0\<lparr>risk_factors := []\<rparr>;
          risk0 = (0::real);
          (a2, risk1) =
             (if missing_or_empty (ld_face_data user_data)
              then (a1\<lparr>risk_factors := risk_factors a1 @ [''Missing facial biometric data'']\<rparr>,
                    risk0 + 0.3)
              else (a1, risk0));
          (a3, risk2) =
             (if missing_or_empty (ld_typing_pattern user_data)
              then (a2\<lparr>risk_factors := risk_factors a2 @ [''Missing typing pattern data'']\<rparr>,
                    risk1 + 0.2)
              else (a2, risk1));
          hour = dt_hour (login_time a3);
          (a4, risk3) =
             (if 2 \<le> hour \<and> hour \<le> 5
              then (a3\<lparr>risk_factors := risk_factors a3 @ [''Unusual login time'']\<rparr>,
                    risk2 + 0.2)
              else (a3, risk2))
      in (min risk3 1.0, a4))"

text \<open>The dictionary \<^verbatim>\<open>authenticate\<close> returns beside the boolean.\<close>

record authentication_info =
  ai_risk_level :: real
  ai_risk_factors :: "string list"
  ai_timestamp :: string
  ai_additional_verification_required :: bool

definition authenticate ::
  "login_data \<Rightarrow> authentication_system \<Rightarrow> (bool \<times> authentication_info) \<times> authentication_system" where
  "authenticate user_data a0 =
     (let a1 = a0\<lparr>login_device :=
                    (case ld_device_info user_data of None \<Rightarrow> ''Unknown device'' | Some d \<Rightarrow> d),
                  login_location :=
                    (case ld_location user_data of None \<Rightarrow> ''Unknown location'' | Some l \<Rightarrow> l)\<rparr>;
          (risk_level, a2) = evaluate_risk user_data a1;
          a3 = a2\<lparr>authentication_history := authentication_history a2 @
                 [\<lparr>ae_timestamp = login_time a2, ae_device = login_device a2,
                   ae_location = login_location a2, ae_risk_level = risk_level,
                   ae_success = (risk_level < 0.7)\<rparr>]\<rparr>;
          authentication_successful = (risk_level < 0.7)
      in ((authentication_successful,
           \<lparr>ai_risk_level = risk_level,
            ai_risk_factors = risk_factors a3,
            ai_timestamp = dt_isoformat (login_time a3),
            ai_additional_verification_required = (0.3 \<le> risk_level \<and> risk_level < 0.7)\<rparr>),
          a3))"

text \<open>The outcome a caller reads off the result of \<^verbatim>\<open>authenticate\<close>: success without
  further verification, success with additional verification required, or failure.\<close>

datatype decision = Allow | Challenge | Deny

definition decision_of :: "bool \<times> authentication_info \<Rightarrow> decision" where
  "decision_of r =
     (if \<not> fst r then Deny
      else if ai_additional_verification_required (snd r) then Challenge
      else Allow)"

section \<open>\<^verbatim>\<open>app/ai/ai_engine.py\<close>: AIEngine.predict_risk_level\<close>

text \<open>The local dictionary \<^verbatim>\<open>weights\<close>.\<close>

definition weights :: "(string \<times> real) list" where
  "weights = [(''face'', 0.35), (''typing'', 0.25), (''location'', 0.2), (''device'', 0.2)]"

text \<open>One iteration of the loop over \<^verbatim>\<open>verification_results.items()\<close>, on the pair
  (\<^verbatim>\<open>total_risk\<close>, \<^verbatim>\<open>total_weight\<close>).\<close>

definition accumulate_factor :: "string \<times> bool \<times> real \<Rightarrow> real \<times> real \<Rightarrow> real \<times> real" where
  "accumulate_factor item acc =
     (case item of (factor, _, score) \<Rightarrow>
        (case acc of (total_risk, total_weight) \<Rightarrow>
           (case map_of weights factor of
              None \<Rightarrow> acc
            | Some w \<Rightarrow>
                let risk = (if factor \<in> set [''face'', ''typing''] then 1.0 - score else score)
                in (total_risk + risk * w, total_weight + w))))"

text \<open>\<^verbatim>\<open>predict_risk_level\<close>; the dictionary \<^verbatim>\<open>verification_results\<close> is the list of
  its items in insertion order (its keys are distinct).\<close>

definition predict_risk_level :: "(string \<times> bool \<times> real) list \<Rightarrow> real" where
  "predict_risk_level verification_results =
     (case fold accumulate_factor verification_results (0.0, 0.0) of
        (total_risk, total_weight) \<Rightarrow>
          if total_weight = 0 then 0.9 else total_risk / total_weight)"

text \<open>The risk aggregate as the specification words it, on the mapping itself: over the
  factors present among face, typing, location and device, the sum of the contributions
  (\<open>(1 - score) * weight\<close> for face and typing, \<open>score * weight\<close> for location and device)
  divided by the sum of their weights; 0.9 when none of them is present.\<close>

definition spec_weight :: "string \<Rightarrow> real" where
  "spec_weight f =
     (if f = ''face'' then 0.35 else if f = ''typing'' then 0.25
      else if f = ''location'' then 0.20 else if f = ''device'' then 0.20 else 0)"

definition spec_contribution :: "(string \<rightharpoonup> bool \<times> real) \<Rightarrow> string \<Rightarrow> real" where
  "spec_contribution m f =
     (case m f of
        None \<Rightarrow> 0
      | Some (_, score) \<Rightarrow>
          if f = ''face'' \<or> f = ''typing'' then (1 - score) * spec_weight f
          else score * spec_weight f)"

definition spec_present_weight :: "(string \<rightharpoonup> bool \<times> real) \<Rightarrow> string \<Rightarrow> real" where
  "spec_present_weight m f = (case m f of None \<Rightarrow> 0 | Some _ \<Rightarrow> spec_weight f)"

definition spec_total_risk :: "(string \<rightharpoonup> bool \<times> real) \<Rightarrow> real" where
  "spec_total_risk m =
     spec_contribution m ''face'' + spec_contribution m ''typing''
     + spec_contribution m ''location'' + spec_contribution m ''device''"

definition spec_total_weight :: "(string \<rightharpoonup> bool \<times> real) \<Rightarrow> real" where
  "spec_total_weight m =
     spec_present_weight m ''face'' + spec_present_weight m ''typing''
     + spec_present_weight m ''location'' + spec_present_weight m ''device''"

definition spec_aggregate :: "(string \<rightharpoonup> bool \<times> real) \<Rightarrow> real" where
  "spec_aggregate m =
     (if m ''face'' = None \<and> m ''typing'' = None \<and> m ''location'' = None \<and> m ''device'' = None
      then 0.9
      else spec_total_risk m / spec_total_weight m)"

section \<open>\<^verbatim>\<open>app/models/user_database.py\<close>: class UserDatabase\<close>

text \<open>The user dictionary handed to \<^verbatim>\<open>add_user\<close> and \<^verbatim>\<open>update_user\<close>: the keys the
  database reads (\<^verbatim>\<open>face_data\<close>, \<^verbatim>\<open>typing_pattern\<close>) and the profile keys the callers
  store, each present or absent.\<close>

record user_data =
  usr_username :: "string option"
  usr_face_data :: "string option"
  usr_typing_pattern :: "string option"
  usr_balance :: "real option"

text \<open>A login record, as the callers of \<^verbatim>\<open>add_login_record\<close> build it.\<close>

record login_record =
  lr_timestamp :: "string option"
  lr_device_info :: "string option"
  lr_location :: "string option"
  lr_ip_address :: "string option"
  lr_success :: "bool option"
  lr_risk_level :: "real option"

text \<open>The in-memory dictionaries of the database, keyed by \<^verbatim>\<open>str(user_id)\<close>; the
  methods below take that key.  \<^verbatim>\<open>_save_data\<close> writes a copy to the data file and
  leaves the dictionaries as they are, so it does not appear.\<close>

record user_database =
  users :: "string \<rightharpoonup> user_data"
  stored_face :: "string \<rightharpoonup> string"
  stored_typing_pattern :: "string \<rightharpoonup> string"
  trusted_devices :: "string \<rightharpoonup> string list"
  historical_logins :: "string \<rightharpoonup> login_record list"

text \<open>\<^verbatim>\<open>__init__\<close> when the data file does not exist.\<close>

definition new_user_database :: user_database where
  "new_user_database =
     \<lparr>users = Map.empty, stored_face = Map.empty, stored_typing_pattern = Map.empty,
      trusted_devices = Map.empty, historical_logins = Map.empty\<rparr>"

definition add_user :: "string \<Rightarrow> user_data \<Rightarrow> user_database \<Rightarrow> bool \<times> user_database" where
  "add_user user_id_str ud db =
     (if users db user_id_str \<noteq> None then (False, db)
      else
        let db1 = db\<lparr>users := (users db)(user_id_str \<mapsto> ud)\<rparr>;
            db2 = (case usr_face_data ud of
                     None \<Rightarrow> db1
                   | Some face \<Rightarrow> db1\<lparr>stored_face := (stored_face db1)(user_id_str \<mapsto> face)\<rparr>);
            db3 = (case usr_typing_pattern ud of
                     None \<Rightarrow> db2
                   | Some pat \<Rightarrow>
                       db2\<lparr>stored_typing_pattern :=
                             (stored_typing_pattern db2)(user_id_str \<mapsto> pat)\<rparr>);
            db4 = db3\<lparr>trusted_devices := (trusted_devices db3)(user_id_str \<mapsto> []),
                      historical_logins := (historical_logins db3)(user_id_str \<mapsto> [])\<rparr>
        in (True, db4))"

text \<open>\<^verbatim>\<open>dict.update\<close> on a user dictionary: the keys of the new dictionary win.\<close>

definition dict_update :: "user_data \<Rightarrow> user_data \<Rightarrow> user_data" where
  "dict_update old new =
     \<lparr>usr_username = (case usr_username new of None \<Rightarrow> usr_username old | Some x \<Rightarrow> Some x),
      usr_face_data = (case usr_face_data new of None \<Rightarrow> usr_face_data old | Some x \<Rightarrow> Some x),
      usr_typing_pattern =
        (case usr_typing_pattern new of None \<Rightarrow> usr_typing_pattern old | Some x \<Rightarrow> Some x),
      usr_balance = (case usr_balance new of None \<Rightarrow> usr_balance old | Some x \<Rightarrow> Some x)\<rparr>"

definition update_user :: "string \<Rightarrow> user_data \<Rightarrow> user_database \<Rightarrow> bool \<times> user_database" where
  "update_user user_id_str ud db =
     (case users db user_id_str of
        None \<Rightarrow> (False, db)
      | Some old \<Rightarrow>
        let db1 = db\<lparr>users := (users db)(user_id_str \<mapsto> dict_update old ud)\<rparr>;
            db2 = (case usr_face_data ud of
                     None \<Rightarrow> db1
                   | Some face \<Rightarrow> db1\<lparr>stored_face := (stored_face db1)(user_id_str \<mapsto> face)\<rparr>);
            db3 = (case usr_typing_pattern ud of
                     None \<Rightarrow> db2
                   | Some pat \<Rightarrow>
                       db2\<lparr>stored_typing_pattern :=
                             (stored_typing_pattern db2)(user_id_str \<mapsto> pat)\<rparr>)
        in (True, db3))"

text \<open>\<^verbatim>\<open>add_login_record\<close>; \<open>now\<close> is the clock reading used when the record has no
  timestamp.\<close>

definition add_login_record ::
  "string \<Rightarrow> string \<Rightarrow> login_record \<Rightarrow> user_database \<Rightarrow> bool \<times> user_database" where
  "add_login_record now user_id_str login db =
     (if users db user_id_str = None then (False, db)
      else
        let login1 = (if lr_timestamp login = None then login\<lparr>lr_timestamp := Some now\<rparr>
                      else login);
            db1 = (if historical_logins db user_id_str = None
                   then db\<lparr>historical_logins := (historical_logins db)(user_id_str \<mapsto> [])\<rparr>
                   else db);
            logins = (case historical_logins db1 user_id_str of None \<Rightarrow> [] | Some ls \<Rightarrow> ls)
        in (True,
            db1\<lparr>historical_logins :=
                  (historical_logins db1)(user_id_str \<mapsto> logins @ [login1])\<rparr>))"

definition add_trusted_device :: "string \<Rightarrow> string \<Rightarrow> user_database \<Rightarrow> bool \<times> user_database" where
  "add_trusted_device user_id_str device_info db =
     (if users db user_id_str = None then (False, db)
      else
        let db1 = (if trusted_devices db user_id_str = None
                   then db\<lparr>trusted_devices := (trusted_devices db)(user_id_str \<mapsto> [])\<rparr>
                   else db);
            devices = (case trusted_devices db1 user_id_str of None \<Rightarrow> [] | Some ds \<Rightarrow> ds)
        in if device_info \<notin> set devices
           then (True,
                 db1\<lparr>trusted_devices :=
                       (trusted_devices db1)(user_id_str \<mapsto> devices @ [device_info])\<rparr>)
           else (True, db1))"

text \<open>The three checks of \<^verbatim>\<open>compare_with_current\<close>, each on the list \<^verbatim>\<open>anomalies\<close>.
  Python's \<^verbatim>\<open>a in b\<close> on strings is \<^const>\<open>sublist\<close>.\<close>

definition check_device :: "string \<Rightarrow> login_data \<Rightarrow> user_database \<Rightarrow> string list \<Rightarrow> string list" where
  "check_device user_id_str current_data db anomalies =
     (case ld_device_info current_data of
        None \<Rightarrow> anomalies
      | Some device_info \<Rightarrow>
          let device_trusted =
                (case trusted_devices db user_id_str of
                   None \<Rightarrow> False
                 | Some devices \<Rightarrow> list_ex (\<lambda>device. sublist device_info device) devices)
          in if \<not> device_trusted then anomalies @ [''Untrusted device''] else anomalies)"

text \<open>The loop that sets \<^verbatim>\<open>location_matches\<close> and breaks at the first match.\<close>

fun location_matches :: "string \<Rightarrow> login_record list \<Rightarrow> bool" where
  "location_matches location [] = False"
| "location_matches location (login # logins) =
     (if lr_location login = Some location then True else location_matches location logins)"

definition check_location :: "string \<Rightarrow> login_data \<Rightarrow> user_database \<Rightarrow> string list \<Rightarrow> string list" where
  "check_location user_id_str current_data db anomalies =
     (case ld_location current_data of
        None \<Rightarrow> anomalies
      | Some location \<Rightarrow>
          (case historical_logins db user_id_str of
             None \<Rightarrow> anomalies
           | Some logins \<Rightarrow>
               if \<not> location_matches location logins \<and> length logins > 0
               then anomalies @ [''Unusual location''] else anomalies))"

text \<open>The loop that fills \<^verbatim>\<open>hour_counts\<close>, a dictionary from hour to count, kept in
  insertion order.  \<open>hour_of\<close> is \<^verbatim>\<open>datetime.fromisoformat(ts).hour\<close>: \<open>None\<close> when
  parsing raises ValueError or TypeError, which the loop swallows.\<close>

fun dict_set :: "nat \<Rightarrow> nat \<Rightarrow> (nat \<times> nat) list \<Rightarrow> (nat \<times> nat) list" where
  "dict_set k v [] = [(k, v)]"
| "dict_set k v ((k', v') # kvs) = (if k' = k then (k, v) # kvs else (k', v') # dict_set k v kvs)"

fun count_hours ::
  "(string \<Rightarrow> nat option) \<Rightarrow> login_record list \<Rightarrow> (nat \<times> nat) list \<Rightarrow> (nat \<times> nat) list" where
  "count_hours hour_of [] hour_counts = hour_counts"
| "count_hours hour_of (login # logins) hour_counts =
     count_hours hour_of logins
       (case lr_timestamp login of
          None \<Rightarrow> hour_counts
        | Some ts \<Rightarrow>
            (case hour_of ts of
               None \<Rightarrow> hour_counts
             | Some hour \<Rightarrow>
                 dict_set hour
                   ((case map_of hour_counts hour of None \<Rightarrow> 0 | Some c \<Rightarrow> c) + 1)
                   hour_counts))"

text \<open>\<open>current_hour\<close> is \<^verbatim>\<open>datetime.now().hour\<close>.\<close>

definition check_login_time ::
  "(string \<Rightarrow> nat option) \<Rightarrow> nat \<Rightarrow> string \<Rightarrow> user_database \<Rightarrow> string list \<Rightarrow> string list" where
  "check_login_time hour_of current_hour user_id_str db anomalies =
     (case historical_logins db user_id_str of
        None \<Rightarrow> anomalies
      | Some logins \<Rightarrow>
          if length logins > 0 then
            (let hour_counts = count_hours hour_of logins [] in
             if hour_counts \<noteq> [] then
               (case map_of hour_counts current_hour of
                  None \<Rightarrow> anomalies
                | Some c \<Rightarrow> if c < 2 then anomalies @ [''Unusual login time''] else anomalies)
             else anomalies)
          else anomalies)"

record comparison =
  cmp_user_id :: string
  cmp_anomalies :: "string list"
  cmp_anomaly_count :: nat
  cmp_is_suspicious :: bool

text \<open>\<^verbatim>\<open>compare_with_current\<close>.  For an unknown user the method returns the dictionary
  with the error message and an empty anomaly list: the \<open>Inl\<close> result.\<close>

definition compare_with_current ::
  "(string \<Rightarrow> nat option) \<Rightarrow> nat \<Rightarrow> string \<Rightarrow> login_data \<Rightarrow> user_database
     \<Rightarrow> (string \<times> string list) + comparison" where
  "compare_with_current hour_of current_hour user_id_str current_data db =
     (if users db user_id_str = None then Inl (''User not found'', [])
      else
        let anomalies =
              check_login_time hour_of current_hour user_id_str db
                (check_location user_id_str current_data db
                   (check_device user_id_str current_data db []))
        in Inr \<lparr>cmp_user_id = user_id_str, cmp_anomalies = anomalies,
                cmp_anomaly_count = length anomalies,
                cmp_is_suspicious = (length anomalies > 1)\<rparr>)"

text \<open>A sequence of calls that write to the database, run from a given state.\<close>

datatype database_call =
    AddUser string user_data
  | UpdateUser string user_data
  | AddLoginRecord string string login_record
  | AddTrustedDevice string string

fun call_database :: "database_call \<Rightarrow> user_database \<Rightarrow> user_database" where
  "call_database (AddUser uid ud) db = snd (add_user uid ud db)"
| "call_database (UpdateUser uid ud) db = snd (update_user uid ud db)"
| "call_database (AddLoginRecord now uid login) db = snd (add_login_record now uid login db)"
| "call_database (AddTrustedDevice uid device_info) db = snd (add_trusted_device uid device_info db)"

fun run_database :: "database_call list \<Rightarrow> user_database \<Rightarrow> user_database" where
  "run_database [] db = db"
| "run_database (c # cs) db = run_database cs (call_database c db)"

text \<open>The hour of a login record, when it has a timestamp that parses.\<close>

definition login_hour :: "(string \<Rightarrow> nat option) \<Rightarrow> login_record \<Rightarrow> nat option" where
  "login_hour hour_of login =
     (case lr_timestamp login of None \<Rightarrow> None | Some ts \<Rightarrow> hour_of ts)"

text \<open>The hour field of a timestamp in the layout \<^verbatim>\<open>isoformat()\<close> writes,
  \<^verbatim>\<open>YYYY-MM-DDTHH:MM:SS\<close>; it stands for \<^verbatim>\<open>datetime.fromisoformat(ts).hour\<close> in
  the examples, on timestamps of that layout.\<close>

definition digit_of :: "char \<Rightarrow> nat option" where
  "digit_of =
     map_of [(CHR ''0'', 0), (CHR ''1'', 1), (CHR ''2'', 2), (CHR ''3'', 3), (CHR ''4'', 4),
             (CHR ''5'', 5), (CHR ''6'', 6), (CHR ''7'', 7), (CHR ''8'', 8), (CHR ''9'', 9)]"

definition iso_hour :: "string \<Rightarrow> nat option" where
  "iso_hour ts =
     (case drop 11 ts of
        h1 # h2 # rest \<Rightarrow>
          (case digit_of h1 of
             None \<Rightarrow> None
           | Some a \<Rightarrow>
               (case digit_of h2 of
                  None \<Rightarrow> None
                | Some b \<Rightarrow> if 10 * a + b < 24 then Some (10 * a + b) else None))
      | _ \<Rightarrow> None)"

text \<open>The invariant of the trusted-device lists: no list holds a fingerprint twice.\<close>

definition devices_distinct :: "user_database \<Rightarrow> bool" where
  "devices_distinct db = (\<forall>uid devs. trusted_devices db uid = Some devs \<longrightarrow> distinct devs)"

section \<open>Properties of the transaction state machine\<close>

lemma call_transition_completed:
  "status t = STATUS_COMPLETED \<Longrightarrow> call_transition c t = (False, t)"
  by (cases c)
     (simp_all add: complete_def fail_def block_def flag_for_review_def
        STATUS_COMPLETED_def STATUS_PENDING_def)

lemma run_transitions_completed:
  "status t = STATUS_COMPLETED \<Longrightarrow>
   run_transitions cs t = (replicate (length cs) False, t)"
  by (induction cs) (simp_all add: call_transition_completed)

text \<open>
  Claim C4.  \<^verbatim>\<open>complete()\<close> returns true exactly when the status is Pending and then
  sets the status to Completed; \<^verbatim>\<open>block\<close> and \<^verbatim>\<open>flag_for_review\<close> return true
  exactly when the status is Pending; \<^verbatim>\<open>fail\<close> returns true exactly when the status
  is not Completed; a call that returns false leaves the transaction as it was; and on a
  Completed transaction every sequence of calls returns false throughout and leaves the
  transaction (so its status) unchanged.
\<close>

theorem transaction_transitions:
  "(fst (complete now t) \<longleftrightarrow> status t = STATUS_PENDING)
   \<and> (fst (complete now t) \<longrightarrow> status (snd (complete now t)) = STATUS_COMPLETED)
   \<and> (\<not> fst (complete now t) \<longrightarrow> snd (complete now t) = t)
   \<and> (fst (block now reason t) \<longleftrightarrow> status t = STATUS_PENDING)
   \<and> (fst (block now reason t) \<longrightarrow> status (snd (block now reason t)) = STATUS_BLOCKED)
   \<and> (\<not> fst (block now reason t) \<longrightarrow> snd (block now reason t) = t)
   \<and> (fst (flag_for_review now score t) \<longleftrightarrow> status t = STATUS_PENDING)
   \<and> (fst (flag_for_review now score t) \<longrightarrow>
        status (snd (flag_for_review now score t)) = STATUS_UNDER_REVIEW)
   \<and> (\<not> fst (flag_for_review now score t) \<longrightarrow> snd (flag_for_review now score t) = t)
   \<and> (fst (fail now reason t) \<longleftrightarrow> status t \<noteq> STATUS_COMPLETED)
   \<and> (fst (fail now reason t) \<longrightarrow> status (snd (fail now reason t)) = STATUS_FAILED)
   \<and> (\<not> fst (fail now reason t) \<longrightarrow> snd (fail now reason t) = t)
   \<and> (status t = STATUS_COMPLETED \<longrightarrow>
        run_transitions cs t = (replicate (length cs) False, t))"
  by (simp add: complete_def block_def flag_for_review_def fail_def
        run_transitions_completed)

theorem transaction_transitions_witness:
  "fst (complete ''t1'' (new_transaction ''id'' ''t0'' 1 2 50 ''rent''))
   \<and> status (snd (complete ''t1'' (new_transaction ''id'' ''t0'' 1 2 50 ''rent''))) = ''completed''
   \<and> run_transitions [Block ''t2'' ''fraud'', FlagForReview ''t3'' 0.9, Fail ''t4'' ''late'',
                       Complete ''t5'']
        (snd (complete ''t1'' (new_transaction ''id'' ''t0'' 1 2 50 ''rent'')))
      = ([False, False, False, False],
         snd (complete ''t1'' (new_transaction ''id'' ''t0'' 1 2 50 ''rent'')))"
  using transaction_transitions
          [of "''t1''" "new_transaction ''id'' ''t0'' 1 2 50 ''rent''" "''r''" 0
              "[Block ''t2'' ''fraud'', FlagForReview ''t3'' 0.9, Fail ''t4'' ''late'',
                Complete ''t5'']"]
        transaction_transitions
          [of "''t1''" "snd (complete ''t1'' (new_transaction ''id'' ''t0'' 1 2 50 ''rent''))"
              "''r''" 0
              "[Block ''t2'' ''fraud'', FlagForReview ''t3'' 0.9, Fail ''t4'' ''late'',
                Complete ''t5'']"]
  by (simp add: new_transaction_def complete_def STATUS_PENDING_def STATUS_COMPLETED_def)

section \<open>Properties of threat detection\<close>

lemmas THREAT_LEVEL_defs =
  THREAT_LEVEL_LOW_def THREAT_LEVEL_MEDIUM_def THREAT_LEVEL_HIGH_def THREAT_LEVEL_CRITICAL_def

lemmas check_defs = check_login_attempts_def check_transaction_def check_ip_address_def

lemma threat_level_update_response_plan [simp]:
  "threat_level (update_response_plan s) = threat_level s"
  by (simp add: update_response_plan_def)

lemma blocked_ips_update_response_plan [simp]:
  "blocked_ips (update_response_plan s) = blocked_ips s"
  by (simp add: update_response_plan_def)

lemma blocked_ips_detect_threat:
  "blocked_ips (snd (detect_threat now_threat now_alert rnd a s)) = blocked_ips s"
  by (simp add: detect_threat_def check_defs Let_def split: option.splits prod.splits if_splits)

text \<open>The level after one call: the last rule that fires, in the order login attempts,
  transaction, IP address, assigns its own level; with no rule firing the level stays.\<close>

lemma threat_level_detect_threat:
  "threat_level (snd (detect_threat now_threat now_alert rnd a s)) =
     (if (\<exists>ip. act_ip_address a = Some ip \<and> ip \<in> set (blocked_ips s))
        then THREAT_LEVEL_CRITICAL
      else if (\<exists>txn x. act_transaction a = Some txn \<and> txn_amount txn = Some x \<and> x > 10000)
              \<and> rnd < 0.3
        then THREAT_LEVEL_MEDIUM
      else if (\<exists>n. act_login_attempts a = Some n \<and> n > 5)
        then THREAT_LEVEL_HIGH
      else threat_level s)"
  by (auto simp add: detect_threat_def check_defs Let_def split: option.splits prod.splits)

lemma not_low_detect_threat:
  "threat_level s \<noteq> THREAT_LEVEL_LOW \<Longrightarrow>
   threat_level (snd (detect_threat now_threat now_alert rnd a s)) \<noteq> THREAT_LEVEL_LOW"
  by (simp add: threat_level_detect_threat THREAT_LEVEL_defs)

lemma not_low_detect_threats:
  "threat_level s \<noteq> THREAT_LEVEL_LOW \<Longrightarrow>
   threat_level (detect_threats es s) \<noteq> THREAT_LEVEL_LOW"
  by (induction es s rule: detect_threats.induct) (simp_all add: not_low_detect_threat)

text \<open>
  Claim C1, as stated: the threat level never decreases under \<^verbatim>\<open>detect_threat\<close>, the
  maximum of the current level and the rule's floor wins.  It fails: the rules assign their
  level.  With the address 203.0.113.42 blocked, an access from it raises the level to
  Critical (4), and a following event with 6 login attempts from an unlisted source sets it
  to High (3).
\<close>

theorem threat_level_decreases:
  "threat_level
     (detect_threats
        [(''t1'', ''t2'', 0.5,
          \<lparr>act_login_attempts = None, act_transaction = None,
           act_ip_address = Some ''203.0.113.42''\<rparr>)]
        (snd (block_access ''t0'' \<lparr>acc_ip_address = Some ''203.0.113.42'', acc_reason = None\<rparr>
               (new_defense_system ''t''))))
     = 4
   \<and> threat_level
     (detect_threats
        [(''t1'', ''t2'', 0.5,
          \<lparr>act_login_attempts = None, act_transaction = None,
           act_ip_address = Some ''203.0.113.42''\<rparr>),
         (''t3'', ''t4'', 0.5,
          \<lparr>act_login_attempts = Some 6, act_transaction = None, act_ip_address = None\<rparr>)]
        (snd (block_access ''t0'' \<lparr>acc_ip_address = Some ''203.0.113.42'', acc_reason = None\<rparr>
               (new_defense_system ''t''))))
     = 3"
  by (simp add: threat_level_detect_threat blocked_ips_detect_threat block_access_def
        new_defense_system_def THREAT_LEVEL_defs)

text \<open>
  Claim C1, amended.  Each detection rule that fires assigns the level its own value, in
  the order of the checks, so the level after one call of \<^verbatim>\<open>detect_threat\<close> is
  Critical if the IP address is on the block-list, otherwise Medium if a transaction above
  10000 was sampled as suspicious, otherwise High if there were more than 5 login attempts,
  and otherwise the level before the call.  After any event followed by an access from a
  blocked IP (in particular after more than 5 login attempts, then a blocked IP) the level
  is Critical.  Over every sequence of events, a level that is not Low never becomes Low.
\<close>

theorem threat_level_last_rule_wins:
  "threat_level (snd (detect_threat now_threat now_alert rnd a s)) =
     (if (\<exists>ip. act_ip_address a = Some ip \<and> ip \<in> set (blocked_ips s))
        then THREAT_LEVEL_CRITICAL
      else if (\<exists>txn x. act_transaction a = Some txn \<and> txn_amount txn = Some x \<and> x > 10000)
              \<and> rnd < 0.3
        then THREAT_LEVEL_MEDIUM
      else if (\<exists>n. act_login_attempts a = Some n \<and> n > 5)
        then THREAT_LEVEL_HIGH
      else threat_level s)
   \<and> (act_ip_address a2 = Some ip2 \<and> ip2 \<in> set (blocked_ips s) \<longrightarrow>
        threat_level
          (detect_threats [(now_threat, now_alert, rnd, a), (now_threat2, now_alert2, rnd2, a2)] s)
        = THREAT_LEVEL_CRITICAL)
   \<and> (threat_level s \<noteq> THREAT_LEVEL_LOW \<longrightarrow>
        threat_level (detect_threats es s) \<noteq> THREAT_LEVEL_LOW)"
proof (intro conjI impI)
  show "threat_level (snd (detect_threat now_threat now_alert rnd a s)) =
     (if (\<exists>ip. act_ip_address a = Some ip \<and> ip \<in> set (blocked_ips s))
        then THREAT_LEVEL_CRITICAL
      else if (\<exists>txn x. act_transaction a = Some txn \<and> txn_amount txn = Some x \<and> x > 10000)
              \<and> rnd < 0.3
        then THREAT_LEVEL_MEDIUM
      else if (\<exists>n. act_login_attempts a = Some n \<and> n > 5)
        then THREAT_LEVEL_HIGH
      else threat_level s)"
    by (rule threat_level_detect_threat)
next
  assume "act_ip_address a2 = Some ip2 \<and> ip2 \<in> set (blocked_ips s)"
  then show "threat_level
          (detect_threats [(now_threat, now_alert, rnd, a), (now_threat2, now_alert2, rnd2, a2)] s)
        = THREAT_LEVEL_CRITICAL"
    by (simp add: threat_level_detect_threat blocked_ips_detect_threat)
next
  assume "threat_level s \<noteq> THREAT_LEVEL_LOW"
  then show "threat_level (detect_threats es s) \<noteq> THREAT_LEVEL_LOW"
    by (rule not_low_detect_threats)
qed

theorem threat_level_last_rule_wins_witness:
  "threat_level
     (detect_threats
        [(''t1'', ''t2'', 0.5,
          \<lparr>act_login_attempts = Some 6, act_transaction = None, act_ip_address = None\<rparr>),
         (''t3'', ''t4'', 0.5,
          \<lparr>act_login_attempts = None, act_transaction = None,
           act_ip_address = Some ''203.0.113.42''\<rparr>)]
        (snd (block_access ''t0'' \<lparr>acc_ip_address = Some ''203.0.113.42'', acc_reason = None\<rparr>
               (new_defense_system ''t''))))
     = 4
   \<and> threat_level
        (snd (detect_threat ''t1'' ''t2'' 0.5
               \<lparr>act_login_attempts = Some 6, act_transaction = None, act_ip_address = None\<rparr>
               (new_defense_system ''t''))) = 3
   \<and> threat_level
        (detect_threats
           [(''t3'', ''t4'', 0.1,
             \<lparr>act_login_attempts = None, act_transaction = Some \<lparr>txn_amount = Some 50000\<rparr>,
              act_ip_address = None\<rparr>)]
           (snd (detect_threat ''t1'' ''t2'' 0.5
               \<lparr>act_login_attempts = Some 6, act_transaction = None, act_ip_address = None\<rparr>
               (new_defense_system ''t'')))) \<noteq> 1"
  using threat_level_last_rule_wins
          [where a = "\<lparr>act_login_attempts = Some 6, act_transaction = None,
                        act_ip_address = None\<rparr>"
             and s = "snd (block_access ''t0''
                      \<lparr>acc_ip_address = Some ''203.0.113.42'', acc_reason = None\<rparr>
                      (new_defense_system ''t''))"
             and ?a2.0 = "\<lparr>act_login_attempts = None, act_transaction = None,
                act_ip_address = Some ''203.0.113.42''\<rparr>"
             and ?ip2.0 = "''203.0.113.42''"
             and now_threat = "''t1''" and now_alert = "''t2''" and rnd = "0.5"
             and ?now_threat2.0 = "''t3''" and ?now_alert2.0 = "''t4''" and ?rnd2.0 = "0.5"
             and es = "[]"]
        threat_level_last_rule_wins
          [where a = "\<lparr>act_login_attempts = Some 6, act_transaction = None,
                        act_ip_address = None\<rparr>"
             and s = "new_defense_system ''t''"
             and now_threat = "''t1''" and now_alert = "''t2''" and rnd = "0.5"
             and es = "[]"]
        threat_level_last_rule_wins
          [where a = "\<lparr>act_login_attempts = None, act_transaction = None,
                        act_ip_address = None\<rparr>"
             and s = "snd (detect_threat ''t1'' ''t2'' 0.5
               \<lparr>act_login_attempts = Some 6, act_transaction = None, act_ip_address = None\<rparr>
               (new_defense_system ''t''))"
             and now_threat = "''t1''" and now_alert = "''t2''" and rnd = "0.5"
             and es = "[(''t3'', ''t4'', 0.1,
                 \<lparr>act_login_attempts = None, act_transaction = Some \<lparr>txn_amount = Some 50000\<rparr>,
                  act_ip_address = None\<rparr>)]"]
  by (simp add: block_access_def new_defense_system_def THREAT_LEVEL_defs)

text \<open>
  Claim C9.  An activity event that fires no detection rule (login attempts absent or at
  most 5; transaction absent, or its amount absent or at most 10000; IP address absent or
  not on the block-list) makes \<^verbatim>\<open>detect_threat\<close> return false with empty details, and
  leaves the whole object as it was: threat level, response plan, active threats, security
  alerts and blocked IPs.
\<close>

theorem detect_threat_no_rule_fires:
  assumes "\<forall>n. act_login_attempts a = Some n \<longrightarrow> n \<le> 5"
    and "\<forall>txn x. act_transaction a = Some txn \<longrightarrow> txn_amount txn = Some x \<longrightarrow> x \<le> 10000"
    and "\<forall>ip. act_ip_address a = Some ip \<longrightarrow> ip \<notin> set (blocked_ips s)"
  shows "detect_threat now_threat now_alert rnd a s =
     ((False, \<lparr>ti_threat_detected = False, ti_threat_level = threat_level s,
               ti_threat_details = None, ti_response_plan = response_plan s\<rparr>), s)"
  using assms
  by (auto simp add: detect_threat_def check_defs Let_def split: option.splits)

theorem detect_threat_no_rule_fires_witness:
  "detect_threat ''t1'' ''t2'' 0.1
     \<lparr>act_login_attempts = Some 5, act_transaction = Some \<lparr>txn_amount = Some 10000\<rparr>,
      act_ip_address = Some ''192.168.1.1''\<rparr>
     (snd (block_access ''t0'' \<lparr>acc_ip_address = Some ''203.0.113.42'', acc_reason = None\<rparr>
            (new_defense_system ''t'')))
   = ((False, \<lparr>ti_threat_detected = False, ti_threat_level = 1,
               ti_threat_details = None, ti_response_plan = ''Standard monitoring''\<rparr>),
      snd (block_access ''t0'' \<lparr>acc_ip_address = Some ''203.0.113.42'', acc_reason = None\<rparr>
            (new_defense_system ''t'')))"
  using detect_threat_no_rule_fires
          [where a = "\<lparr>act_login_attempts = Some 5,
                        act_transaction = Some \<lparr>txn_amount = Some 10000\<rparr>,
                        act_ip_address = Some ''192.168.1.1''\<rparr>"
             and s = "snd (block_access ''t0''
                      \<lparr>acc_ip_address = Some ''203.0.113.42'', acc_reason = None\<rparr>
                      (new_defense_system ''t''))"
             and now_threat = "''t1''" and now_alert = "''t2''" and rnd = "0.1"]
  by (simp add: block_access_def new_defense_system_def THREAT_LEVEL_defs)

section \<open>Properties of the authentication risk evaluator\<close>

lemma evaluate_risk_value:
  "fst (evaluate_risk user_data a) =
     min ((if missing_or_empty (ld_face_data user_data) then 0.3 else 0)
          + (if missing_or_empty (ld_typing_pattern user_data) then 0.2 else 0)
          + (if 2 \<le> dt_hour (login_time a) \<and> dt_hour (login_time a) \<le> 5 then 0.2 else 0)) 1"
  by (simp add: evaluate_risk_def Let_def)

lemma authenticate_risk_level:
  "ai_risk_level (snd (fst (authenticate user_data a))) = fst (evaluate_risk user_data a)"
  by (simp add: authenticate_def evaluate_risk_def Let_def split: prod.splits)

lemma authenticate_successful:
  "fst (fst (authenticate user_data a)) = (fst (evaluate_risk user_data a) < 0.7)"
  by (simp add: authenticate_def evaluate_risk_def Let_def split: prod.splits)

lemma authenticate_additional_verification:
  "ai_additional_verification_required (snd (fst (authenticate user_data a)))
     = (0.3 \<le> fst (evaluate_risk user_data a) \<and> fst (evaluate_risk user_data a) < 0.7)"
  by (simp add: authenticate_def evaluate_risk_def Let_def split: prod.splits)

lemma decision_of_authenticate:
  "decision_of (fst (authenticate user_data a)) =
     (if fst (evaluate_risk user_data a) < 0.3 then Allow
      else if fst (evaluate_risk user_data a) < 0.7 then Challenge else Deny)"
  by (simp add: decision_of_def authenticate_successful authenticate_additional_verification)

text \<open>
  Claim C2, as stated: a risk below 0.5 yields Allow, that is success with no additional
  verification required.  It fails: with the facial sample missing, the typing sample
  present and a login at noon, the risk is 0.3, below 0.5, and \<^verbatim>\<open>authenticate\<close>
  succeeds with \<^verbatim>\<open>additional_verification_required\<close> set.
\<close>

theorem authenticate_challenge_below_half:
  "fst (evaluate_risk
          \<lparr>ld_username = Some ''user123'', ld_password = Some ''password123'',
           ld_face_data = None, ld_typing_pattern = Some ''keystroke_timing_data'',
           ld_ip_address = Some ''192.168.1.1'', ld_device_info = Some ''Windows 11'',
           ld_location = Some ''48.8566,2.3522''\<rparr>
          (new_authentication_system \<lparr>dt_hour = 12, dt_isoformat = ''2025-05-16T12:00:00''\<rparr>))
     < 0.5
   \<and> ai_additional_verification_required
        (snd (fst (authenticate
          \<lparr>ld_username = Some ''user123'', ld_password = Some ''password123'',
           ld_face_data = None, ld_typing_pattern = Some ''keystroke_timing_data'',
           ld_ip_address = Some ''192.168.1.1'', ld_device_info = Some ''Windows 11'',
           ld_location = Some ''48.8566,2.3522''\<rparr>
          (new_authentication_system \<lparr>dt_hour = 12, dt_isoformat = ''2025-05-16T12:00:00''\<rparr>))))
   \<and> decision_of
        (fst (authenticate
          \<lparr>ld_username = Some ''user123'', ld_password = Some ''password123'',
           ld_face_data = None, ld_typing_pattern = Some ''keystroke_timing_data'',
           ld_ip_address = Some ''192.168.1.1'', ld_device_info = Some ''Windows 11'',
           ld_location = Some ''48.8566,2.3522''\<rparr>
          (new_authentication_system \<lparr>dt_hour = 12, dt_isoformat = ''2025-05-16T12:00:00''\<rparr>)))
     = Challenge"
  by (simp add: decision_of_authenticate authenticate_additional_verification
        evaluate_risk_value missing_or_empty_def new_authentication_system_def)

text \<open>
  Claim C2, amended.  The decision of \<^verbatim>\<open>authenticate\<close> is determined by the risk that
  \<^verbatim>\<open>evaluate_risk\<close> computes, with the thresholds 0.3 and 0.7: a risk below 0.3 yields
  Allow (success, no additional verification required), a risk from 0.3 up to but not
  including 0.7 yields Challenge (success, additional verification required), and a risk of
  0.7 or more yields Deny (authentication fails).
\<close>

theorem authenticate_decision:
  "ai_risk_level (snd (fst (authenticate user_data a))) = fst (evaluate_risk user_data a)
   \<and> (fst (evaluate_risk user_data a) < 0.3 \<longrightarrow>
        fst (fst (authenticate user_data a))
        \<and> \<not> ai_additional_verification_required (snd (fst (authenticate user_data a)))
        \<and> decision_of (fst (authenticate user_data a)) = Allow)
   \<and> (0.3 \<le> fst (evaluate_risk user_data a) \<and> fst (evaluate_risk user_data a) < 0.7 \<longrightarrow>
        fst (fst (authenticate user_data a))
        \<and> ai_additional_verification_required (snd (fst (authenticate user_data a)))
        \<and> decision_of (fst (authenticate user_data a)) = Challenge)
   \<and> (0.7 \<le> fst (evaluate_risk user_data a) \<longrightarrow>
        \<not> fst (fst (authenticate user_data a))
        \<and> \<not> ai_additional_verification_required (snd (fst (authenticate user_data a)))
        \<and> decision_of (fst (authenticate user_data a)) = Deny)"
  by (simp add: authenticate_risk_level authenticate_successful
        authenticate_additional_verification decision_of_authenticate)

theorem authenticate_decision_witness:
  "decision_of (fst (authenticate
      \<lparr>ld_username = None, ld_password = None, ld_face_data = Some ''face'',
       ld_typing_pattern = Some ''keys'', ld_ip_address = None, ld_device_info = None,
       ld_location = None\<rparr>
      (new_authentication_system \<lparr>dt_hour = 12, dt_isoformat = ''noon''\<rparr>))) = Allow
   \<and> decision_of (fst (authenticate
      \<lparr>ld_username = None, ld_password = None, ld_face_data = None,
       ld_typing_pattern = Some ''keys'', ld_ip_address = None, ld_device_info = None,
       ld_location = None\<rparr>
      (new_authentication_system \<lparr>dt_hour = 12, dt_isoformat = ''noon''\<rparr>))) = Challenge
   \<and> decision_of (fst (authenticate
      \<lparr>ld_username = None, ld_password = None, ld_face_data = None,
       ld_typing_pattern = None, ld_ip_address = None, ld_device_info = None,
       ld_location = None\<rparr>
      (new_authentication_system \<lparr>dt_hour = 3, dt_isoformat = ''night''\<rparr>))) = Deny"
  using authenticate_decision
          [where user_data = "\<lparr>ld_username = None, ld_password = None,
                  ld_face_data = Some ''face'', ld_typing_pattern = Some ''keys'',
                  ld_ip_address = None, ld_device_info = None, ld_location = None\<rparr>"
             and a = "new_authentication_system \<lparr>dt_hour = 12, dt_isoformat = ''noon''\<rparr>"]
        authenticate_decision
          [where user_data = "\<lparr>ld_username = None, ld_password = None,
                  ld_face_data = None, ld_typing_pattern = Some ''keys'',
                  ld_ip_address = None, ld_device_info = None, ld_location = None\<rparr>"
             and a = "new_authentication_system \<lparr>dt_hour = 12, dt_isoformat = ''noon''\<rparr>"]
        authenticate_decision
          [where user_data = "\<lparr>ld_username = None, ld_password = None,
                  ld_face_data = None, ld_typing_pattern = None,
                  ld_ip_address = None, ld_device_info = None, ld_location = None\<rparr>"
             and a = "new_authentication_system \<lparr>dt_hour = 3, dt_isoformat = ''night''\<rparr>"]
  by (simp add: evaluate_risk_value missing_or_empty_def new_authentication_system_def)

text \<open>
  Claim C5.  The risk \<^verbatim>\<open>evaluate_risk\<close> returns is the sum of the independent
  penalties, 0.3 for a missing or empty facial sample, 0.2 for a missing or empty typing
  sample, 0.2 for a login hour in the unusual-hours window (2 to 5 inclusive, read from the
  system's \<^verbatim>\<open>login_time\<close>), capped at 1.0; with both samples missing and a login at
  3 AM the risk is 0.7 and \<^verbatim>\<open>authenticate\<close> denies.
\<close>

theorem evaluate_risk_additive:
  "fst (evaluate_risk user_data a) =
     min ((if missing_or_empty (ld_face_data user_data) then 0.3 else 0)
          + (if missing_or_empty (ld_typing_pattern user_data) then 0.2 else 0)
          + (if 2 \<le> dt_hour (login_time a) \<and> dt_hour (login_time a) \<le> 5 then 0.2 else 0)) 1
   \<and> (missing_or_empty (ld_face_data user_data)
        \<and> missing_or_empty (ld_typing_pattern user_data)
        \<and> dt_hour (login_time a) = 3 \<longrightarrow>
        fst (evaluate_risk user_data a) = 0.7
        \<and> \<not> fst (fst (authenticate user_data a))
        \<and> decision_of (fst (authenticate user_data a)) = Deny)"
  by (simp add: evaluate_risk_value authenticate_successful decision_of_authenticate)

theorem evaluate_risk_additive_witness:
  "fst (evaluate_risk
      \<lparr>ld_username = Some ''user123'', ld_password = Some ''password123'',
       ld_face_data = None, ld_typing_pattern = Some [],
       ld_ip_address = Some ''192.168.1.1'', ld_device_info = Some ''Windows 11'',
       ld_location = Some ''48.8566,2.3522''\<rparr>
      (new_authentication_system \<lparr>dt_hour = 3, dt_isoformat = ''2025-05-16T03:00:00''\<rparr>))
     = 0.7
   \<and> decision_of (fst (authenticate
      \<lparr>ld_username = Some ''user123'', ld_password = Some ''password123'',
       ld_face_data = None, ld_typing_pattern = Some [],
       ld_ip_address = Some ''192.168.1.1'', ld_device_info = Some ''Windows 11'',
       ld_location = Some ''48.8566,2.3522''\<rparr>
      (new_authentication_system \<lparr>dt_hour = 3, dt_isoformat = ''2025-05-16T03:00:00''\<rparr>)))
     = Deny"
  using evaluate_risk_additive
          [where user_data = "\<lparr>ld_username = Some ''user123'',
                  ld_password = Some ''password123'',
                  ld_face_data = None, ld_typing_pattern = Some [],
                  ld_ip_address = Some ''192.168.1.1'', ld_device_info = Some ''Windows 11'',
                  ld_location = Some ''48.8566,2.3522''\<rparr>"
             and a = "new_authentication_system
                        \<lparr>dt_hour = 3, dt_isoformat = ''2025-05-16T03:00:00''\<rparr>"]
  by (simp add: missing_or_empty_def new_authentication_system_def)

section \<open>Properties of the risk aggregator\<close>

lemma spec_contribution_other:
  "k \<noteq> f \<Longrightarrow> spec_contribution (m(f \<mapsto> v)) k = spec_contribution m k"
  by (simp add: spec_contribution_def)

lemma spec_present_weight_other:
  "k \<noteq> f \<Longrightarrow> spec_present_weight (m(f \<mapsto> v)) k = spec_present_weight m k"
  by (simp add: spec_present_weight_def)

lemma spec_contribution_absent: "m f = None \<Longrightarrow> spec_contribution m f = 0"
  by (simp add: spec_contribution_def)

lemma spec_present_weight_absent: "m f = None \<Longrightarrow> spec_present_weight m f = 0"
  by (simp add: spec_present_weight_def)

lemma spec_totals_unrecognized:
  assumes "f \<noteq> ''face''" "f \<noteq> ''typing''" "f \<noteq> ''location''" "f \<noteq> ''device''"
  shows "spec_total_risk (m(f \<mapsto> v)) = spec_total_risk m"
    and "spec_total_weight (m(f \<mapsto> v)) = spec_total_weight m"
  using assms
  by (simp_all add: spec_total_risk_def spec_total_weight_def spec_contribution_other
        spec_present_weight_other del: fun_upd_apply)

lemma accumulate_factor_unrecognized:
  assumes "f \<noteq> ''face''" "f \<noteq> ''typing''" "f \<noteq> ''location''" "f \<noteq> ''device''"
  shows "accumulate_factor (f, v) acc = acc"
  using assms by (cases v; cases acc) (simp add: accumulate_factor_def weights_def)

lemma accumulate_factor_face:
  "accumulate_factor (''face'', b, sc) (tr, tw) = (tr + (1 - sc) * 0.35, tw + 0.35)"
  by (simp add: accumulate_factor_def weights_def)

lemma accumulate_factor_typing:
  "accumulate_factor (''typing'', b, sc) (tr, tw) = (tr + (1 - sc) * 0.25, tw + 0.25)"
  by (simp add: accumulate_factor_def weights_def)

lemma accumulate_factor_location:
  "accumulate_factor (''location'', b, sc) (tr, tw) = (tr + sc * 0.2, tw + 0.2)"
  by (simp add: accumulate_factor_def weights_def)

lemma accumulate_factor_device:
  "accumulate_factor (''device'', b, sc) (tr, tw) = (tr + sc * 0.2, tw + 0.2)"
  by (simp add: accumulate_factor_def weights_def)


lemma spec_totals_face:
  assumes "m ''face'' = None"
  shows "spec_total_risk (m(''face'' \<mapsto> (b, sc))) = spec_total_risk m + (1 - sc) * 0.35"
    and "spec_total_weight (m(''face'' \<mapsto> (b, sc))) = spec_total_weight m + 0.35"
  using assms
  by (simp_all add: spec_total_risk_def spec_total_weight_def spec_contribution_def
        spec_present_weight_def spec_weight_def)

lemma spec_totals_typing:
  assumes "m ''typing'' = None"
  shows "spec_total_risk (m(''typing'' \<mapsto> (b, sc))) = spec_total_risk m + (1 - sc) * 0.25"
    and "spec_total_weight (m(''typing'' \<mapsto> (b, sc))) = spec_total_weight m + 0.25"
  using assms
  by (simp_all add: spec_total_risk_def spec_total_weight_def spec_contribution_def
        spec_present_weight_def spec_weight_def)

lemma spec_totals_location:
  assumes "m ''location'' = None"
  shows "spec_total_risk (m(''location'' \<mapsto> (b, sc))) = spec_total_risk m + sc * 0.2"
    and "spec_total_weight (m(''location'' \<mapsto> (b, sc))) = spec_total_weight m + 0.2"
  using assms
  by (simp_all add: spec_total_risk_def spec_total_weight_def spec_contribution_def
        spec_present_weight_def spec_weight_def)

lemma spec_totals_device:
  assumes "m ''device'' = None"
  shows "spec_total_risk (m(''device'' \<mapsto> (b, sc))) = spec_total_risk m + sc * 0.2"
    and "spec_total_weight (m(''device'' \<mapsto> (b, sc))) = spec_total_weight m + 0.2"
  using assms
  by (simp_all add: spec_total_risk_def spec_total_weight_def spec_contribution_def
        spec_present_weight_def spec_weight_def)

lemma fold_accumulate_factor_spec:
  "distinct (map fst vr) \<Longrightarrow>
   fold accumulate_factor vr (tr, tw) =
     (tr + spec_total_risk (map_of vr), tw + spec_total_weight (map_of vr))"
proof (induction vr arbitrary: tr tw)
  case Nil
  show ?case
    by (simp add: spec_total_risk_def spec_total_weight_def spec_contribution_def
          spec_present_weight_def)
next
  case (Cons item vr)
  obtain f b sc where item: "item = (f, b, sc)" by (cases item)
  from Cons.prems item have fresh: "map_of vr f = None" and dist: "distinct (map fst vr)"
    by (auto simp: map_of_eq_None_iff)
  have unfold: "fold accumulate_factor (item # vr) (tr, tw) =
      fold accumulate_factor vr (accumulate_factor (f, b, sc) (tr, tw))"
    by (simp add: item)
  have upd: "map_of (item # vr) = (map_of vr)(f \<mapsto> (b, sc))"
    by (simp add: item)
  consider (face) "f = ''face''" | (typing) "f = ''typing''" | (location) "f = ''location''"
    | (device) "f = ''device''"
    | (other) "f \<noteq> ''face''" "f \<noteq> ''typing''" "f \<noteq> ''location''" "f \<noteq> ''device''"
    by blast
  then show ?case
  proof cases
    case face
    with fresh have "map_of vr ''face'' = None" by simp
    from spec_totals_face[where m = "map_of vr" and b = b and sc = sc, OF this] show ?thesis
      unfolding unfold upd face accumulate_factor_face Cons.IH[OF dist]
      by (simp only: add_ac)
  next
    case typing
    with fresh have "map_of vr ''typing'' = None" by simp
    from spec_totals_typing[where m = "map_of vr" and b = b and sc = sc, OF this] show ?thesis
      unfolding unfold upd typing accumulate_factor_typing Cons.IH[OF dist]
      by (simp only: add_ac)
  next
    case location
    with fresh have "map_of vr ''location'' = None" by simp
    from spec_totals_location[where m = "map_of vr" and b = b and sc = sc, OF this] show ?thesis
      unfolding unfold upd location accumulate_factor_location Cons.IH[OF dist]
      by (simp only: add_ac)
  next
    case device
    with fresh have "map_of vr ''device'' = None" by simp
    from spec_totals_device[where m = "map_of vr" and b = b and sc = sc, OF this] show ?thesis
      unfolding unfold upd device accumulate_factor_device Cons.IH[OF dist]
      by (simp only: add_ac)
  next
    case other
    show ?thesis
      unfolding unfold upd accumulate_factor_unrecognized[OF other]
        spec_totals_unrecognized[OF other] Cons.IH[OF dist] ..
  qed
qed

lemma spec_present_weight_nonneg: "0 \<le> spec_present_weight m f"
  by (simp add: spec_present_weight_def spec_weight_def split: option.splits)

lemma spec_total_weight_zero:
  "spec_total_weight m = 0 \<longleftrightarrow>
     (m ''face'' = None \<and> m ''typing'' = None \<and> m ''location'' = None \<and> m ''device'' = None)"
proof
  assume none: "m ''face'' = None \<and> m ''typing'' = None \<and> m ''location'' = None
    \<and> m ''device'' = None"
  then show "spec_total_weight m = 0"
    by (simp add: spec_total_weight_def spec_present_weight_def)
next
  assume z: "spec_total_weight m = 0"
  have nn: "0 \<le> spec_present_weight m ''face''" "0 \<le> spec_present_weight m ''typing''"
    "0 \<le> spec_present_weight m ''location''" "0 \<le> spec_present_weight m ''device''"
    by (rule spec_present_weight_nonneg)+
  with z have zs: "spec_present_weight m ''face'' = 0" "spec_present_weight m ''typing'' = 0"
    "spec_present_weight m ''location'' = 0" "spec_present_weight m ''device'' = 0"
    unfolding spec_total_weight_def by linarith+
  have "m ''face'' = None"
    using zs(1) by (cases "m ''face''") (simp_all add: spec_present_weight_def spec_weight_def)
  moreover have "m ''typing'' = None"
    using zs(2) by (cases "m ''typing''") (simp_all add: spec_present_weight_def spec_weight_def)
  moreover have "m ''location'' = None"
    using zs(3) by (cases "m ''location''") (simp_all add: spec_present_weight_def spec_weight_def)
  moreover have "m ''device'' = None"
    using zs(4) by (cases "m ''device''") (simp_all add: spec_present_weight_def spec_weight_def)
  ultimately show "m ''face'' = None \<and> m ''typing'' = None \<and> m ''location'' = None
    \<and> m ''device'' = None" by simp
qed

lemma predict_risk_level_spec_aggregate:
  assumes "distinct (map fst vr)"
  shows "predict_risk_level vr = spec_aggregate (map_of vr)"
proof -
  have "fold accumulate_factor vr (0, 0) =
      (spec_total_risk (map_of vr), spec_total_weight (map_of vr))"
    using fold_accumulate_factor_spec[OF assms, of 0 0] by simp
  then have "predict_risk_level vr =
      (if spec_total_weight (map_of vr) = 0 then 0.9
       else spec_total_risk (map_of vr) / spec_total_weight (map_of vr))"
    by (simp add: predict_risk_level_def)
  also have "\<dots> = spec_aggregate (map_of vr)"
    unfolding spec_total_weight_zero
    by (simp only: spec_aggregate_def)
  finally show ?thesis .
qed

lemma fold_accumulate_factor_bounds:
  "\<forall>(f, b, sc) \<in> set vr. 0 \<le> sc \<and> sc \<le> 1 \<Longrightarrow> 0 \<le> tr \<Longrightarrow> tr \<le> tw \<Longrightarrow>
   0 \<le> fst (fold accumulate_factor vr (tr, tw)) \<and>
   fst (fold accumulate_factor vr (tr, tw)) \<le> snd (fold accumulate_factor vr (tr, tw))"
proof (induction vr arbitrary: tr tw)
  case Nil
  then show ?case by simp
next
  case (Cons item vr)
  obtain f b sc where item: "item = (f, b, sc)" by (cases item)
  from Cons.prems(1) item have sc: "0 \<le> sc" "sc \<le> 1" by auto
  have rest: "\<forall>(f, b, sc) \<in> set vr. 0 \<le> sc \<and> sc \<le> 1" using Cons.prems(1) by simp
  show ?case
  proof (cases "map_of weights f")
    case None
    then have "accumulate_factor item (tr, tw) = (tr, tw)"
      by (simp add: accumulate_factor_def item)
    then show ?thesis using Cons.IH[OF rest Cons.prems(2,3)] by simp
  next
    case (Some w)
    then have w: "0 \<le> w" by (auto simp: weights_def split: if_splits)
    define risk where "risk = (if f \<in> set [''face'', ''typing''] then 1 - sc else sc)"
    have risk: "0 \<le> risk" "risk \<le> 1" using sc by (auto simp: risk_def)
    have step: "accumulate_factor item (tr, tw) = (tr + risk * w, tw + w)"
      using Some by (simp add: accumulate_factor_def item risk_def Let_def)
    have "risk * w \<le> w" using risk w by (simp add: mult_left_le_one_le)
    moreover have "0 \<le> risk * w" using risk w by simp
    ultimately have "0 \<le> tr + risk * w" "tr + risk * w \<le> tw + w"
      using Cons.prems(2,3) by linarith+
    from Cons.IH[OF rest this] show ?thesis by (simp add: step)
  qed
qed

lemma predict_risk_level_bounds:
  assumes "\<forall>(f, b, sc) \<in> set vr. 0 \<le> sc \<and> sc \<le> 1"
  shows "0 \<le> predict_risk_level vr \<and> predict_risk_level vr \<le> 1"
proof -
  obtain tr tw where acc: "fold accumulate_factor vr (0, 0) = (tr, tw)"
    by (cases "fold accumulate_factor vr (0, 0)")
  from fold_accumulate_factor_bounds[OF assms, of 0 0] acc have "0 \<le> tr" "tr \<le> tw"
    by simp_all
  then show ?thesis
    by (simp add: predict_risk_level_def acc)
qed

lemma predict_risk_level_unrecognized:
  assumes "f \<noteq> ''face''" "f \<noteq> ''typing''" "f \<noteq> ''location''" "f \<noteq> ''device''"
  shows "predict_risk_level (xs @ (f, v) # ys) = predict_risk_level (xs @ ys)"
  by (simp add: predict_risk_level_def accumulate_factor_unrecognized[OF assms])

text \<open>
  Claim C3.  On a mapping of verification results (a dictionary: distinct keys),
  \<^verbatim>\<open>predict_risk_level\<close> equals the reference weighted average: weights face 0.35,
  typing 0.25, location 0.20, device 0.20; a face or typing entry contributes
  \<open>(1 - score) * weight\<close>, a location or device entry \<open>score * weight\<close>; the sum over
  the factors present is divided by the sum of their weights.  With all four factors present
  and perfect signals the result is 0, with all worst signals it is 1, and with none of the
  four factors present it is 0.9.
\<close>

theorem predict_risk_level_weighted_average:
  assumes "distinct (map fst vr)"
  shows "predict_risk_level vr = spec_aggregate (map_of vr)
   \<and> (map_of vr ''face'' = Some (b1, 1) \<and> map_of vr ''typing'' = Some (b2, 1)
        \<and> map_of vr ''location'' = Some (b3, 0) \<and> map_of vr ''device'' = Some (b4, 0)
        \<longrightarrow> predict_risk_level vr = 0)
   \<and> (map_of vr ''face'' = Some (b1, 0) \<and> map_of vr ''typing'' = Some (b2, 0)
        \<and> map_of vr ''location'' = Some (b3, 1) \<and> map_of vr ''device'' = Some (b4, 1)
        \<longrightarrow> predict_risk_level vr = 1)
   \<and> (map_of vr ''face'' = None \<and> map_of vr ''typing'' = None
        \<and> map_of vr ''location'' = None \<and> map_of vr ''device'' = None
        \<longrightarrow> predict_risk_level vr = 0.9)"
proof (intro conjI impI)
  show "predict_risk_level vr = spec_aggregate (map_of vr)"
    by (rule predict_risk_level_spec_aggregate[OF assms])
next
  assume "map_of vr ''face'' = Some (b1, 1) \<and> map_of vr ''typing'' = Some (b2, 1)
        \<and> map_of vr ''location'' = Some (b3, 0) \<and> map_of vr ''device'' = Some (b4, 0)"
  then show "predict_risk_level vr = 0"
    unfolding predict_risk_level_spec_aggregate[OF assms]
    by (simp add: spec_aggregate_def spec_total_risk_def spec_contribution_def)
next
  assume "map_of vr ''face'' = Some (b1, 0) \<and> map_of vr ''typing'' = Some (b2, 0)
        \<and> map_of vr ''location'' = Some (b3, 1) \<and> map_of vr ''device'' = Some (b4, 1)"
  then show "predict_risk_level vr = 1"
    unfolding predict_risk_level_spec_aggregate[OF assms]
    by (simp add: spec_aggregate_def spec_total_risk_def spec_total_weight_def
          spec_contribution_def spec_present_weight_def spec_weight_def)
next
  assume "map_of vr ''face'' = None \<and> map_of vr ''typing'' = None
        \<and> map_of vr ''location'' = None \<and> map_of vr ''device'' = None"
  then show "predict_risk_level vr = 0.9"
    unfolding predict_risk_level_spec_aggregate[OF assms]
    by (simp add: spec_aggregate_def)
qed

theorem predict_risk_level_weighted_average_witness:
  "predict_risk_level
     [(''face'', True, 1), (''typing'', True, 1), (''location'', True, 0),
      (''device'', True, 0)] = 0
   \<and> predict_risk_level
     [(''device'', False, 1), (''location'', False, 1), (''typing'', False, 0),
      (''face'', False, 0)] = 1
   \<and> predict_risk_level [] = 0.9
   \<and> predict_risk_level [(''voice'', True, 0.5)] = 0.9
   \<and> predict_risk_level [(''face'', True, 0.9), (''location'', True, 0.3)]
       = spec_aggregate [''face'' \<mapsto> (True, 0.9), ''location'' \<mapsto> (True, 0.3)]"
  using predict_risk_level_weighted_average
          [where vr = "[(''face'', True, 1), (''typing'', True, 1), (''location'', True, 0),
                        (''device'', True, 0)]"
             and ?b1.0 = True and ?b2.0 = True and ?b3.0 = True and ?b4.0 = True]
        predict_risk_level_weighted_average
          [where vr = "[(''device'', False, 1), (''location'', False, 1), (''typing'', False, 0),
                        (''face'', False, 0)]"
             and ?b1.0 = False and ?b2.0 = False and ?b3.0 = False and ?b4.0 = False]
        predict_risk_level_weighted_average [where vr = "[]"]
        predict_risk_level_weighted_average [where vr = "[(''voice'', True, 0.5)]"]
        predict_risk_level_weighted_average
          [where vr = "[(''face'', True, 0.9), (''location'', True, 0.3)]"]
  by (simp add: fun_upd_twist)

text \<open>
  Claim C10.  When every score lies in [0,1], the risk \<^verbatim>\<open>predict_risk_level\<close> returns
  lies in [0,1]; and an entry whose key is none of face, typing, location, device has no
  effect: the result with the entry, at any position, equals the result without it.
\<close>

theorem predict_risk_level_range:
  "((\<forall>(f, b, sc) \<in> set vr. 0 \<le> sc \<and> sc \<le> 1) \<longrightarrow>
      0 \<le> predict_risk_level vr \<and> predict_risk_level vr \<le> 1)
   \<and> (k \<noteq> ''face'' \<and> k \<noteq> ''typing'' \<and> k \<noteq> ''location'' \<and> k \<noteq> ''device'' \<longrightarrow>
        predict_risk_level (xs @ (k, v) # ys) = predict_risk_level (xs @ ys))"
  by (simp add: predict_risk_level_bounds predict_risk_level_unrecognized)

theorem predict_risk_level_range_witness:
  "0 \<le> predict_risk_level [(''face'', True, 0.9), (''voice'', True, 0.5), (''device'', False, 0.5)]
   \<and> predict_risk_level [(''face'', True, 0.9), (''voice'', True, 0.5), (''device'', False, 0.5)]
       \<le> 1
   \<and> predict_risk_level [(''face'', True, 0.9), (''voice'', True, 0.5), (''device'', False, 0.5)]
       = predict_risk_level [(''face'', True, 0.9), (''device'', False, 0.5)]"
  using predict_risk_level_range
          [where vr = "[(''face'', True, 0.9), (''voice'', True, 0.5), (''device'', False, 0.5)]"
             and k = "''voice''" and v = "(True, 0.5)"
             and xs = "[(''face'', True, 0.9)]" and ys = "[(''device'', False, 0.5)]"]
  by simp

section \<open>Properties of the user database\<close>





lemma location_matches_iff:
  "location_matches location logins \<longleftrightarrow> (\<exists>l \<in> set logins. lr_location l = Some location)"
  by (induction logins) auto

lemma check_location_tag:
  "''Unusual location'' \<in> set (check_location uid current_data db anomalies) \<longleftrightarrow>
     ''Unusual location'' \<in> set anomalies
     \<or> (\<exists>location logins. ld_location current_data = Some location
          \<and> historical_logins db uid = Some logins \<and> logins \<noteq> []
          \<and> (\<forall>l \<in> set logins. lr_location l \<noteq> Some location))"
  by (auto simp add: check_location_def location_matches_iff split: option.splits)

lemma check_login_time_other:
  "tag \<noteq> ''Unusual login time'' \<Longrightarrow>
   tag \<in> set (check_login_time hour_of current_hour uid db anomalies) \<longleftrightarrow> tag \<in> set anomalies"
  by (auto simp add: check_login_time_def Let_def split: option.splits)

lemma check_location_other:
  "tag \<noteq> ''Unusual location'' \<Longrightarrow>
   tag \<in> set (check_location uid current_data db anomalies) \<longleftrightarrow> tag \<in> set anomalies"
  by (auto simp add: check_location_def split: option.splits)

lemma check_device_other:
  "tag \<noteq> ''Untrusted device'' \<Longrightarrow>
   tag \<in> set (check_device uid current_data db anomalies) \<longleftrightarrow> tag \<in> set anomalies"
  by (auto simp add: check_device_def Let_def split: option.splits)

lemma check_device_distinct:
  "distinct (check_device uid current_data db [])"
  by (simp add: check_device_def Let_def split: option.splits)

lemma check_device_tags:
  "set (check_device uid current_data db []) \<subseteq> {''Untrusted device''}"
  by (auto simp add: check_device_def Let_def split: option.splits)

lemma check_location_distinct:
  "distinct anomalies \<Longrightarrow> ''Unusual location'' \<notin> set anomalies \<Longrightarrow>
   distinct (check_location uid current_data db anomalies)"
  by (simp add: check_location_def split: option.splits)

lemma check_login_time_distinct:
  "distinct anomalies \<Longrightarrow> ''Unusual login time'' \<notin> set anomalies \<Longrightarrow>
   distinct (check_login_time hour_of current_hour uid db anomalies)"
  by (simp add: check_login_time_def Let_def split: option.splits)

lemma anomalies_distinct:
  "distinct
     (check_login_time hour_of current_hour uid db
        (check_location uid current_data db (check_device uid current_data db [])))"
proof -
  have a: "''Unusual location'' \<notin> set (check_device uid current_data db [])"
    using check_device_tags[of uid current_data db] by auto
  have b: "''Unusual login time'' \<notin> set (check_device uid current_data db [])"
    using check_device_tags[of uid current_data db] by auto
  have c: "''Unusual login time'' \<notin>
      set (check_location uid current_data db (check_device uid current_data db []))"
    using b by (simp add: check_location_other)
  show ?thesis
    by (intro check_login_time_distinct check_location_distinct check_device_distinct a c)
qed

lemma devices_distinct_new: "devices_distinct new_user_database"
  by (simp add: devices_distinct_def new_user_database_def)

lemma trusted_devices_add_user:
  "trusted_devices (snd (add_user uid ud db)) =
     (if users db uid \<noteq> None then trusted_devices db else (trusted_devices db)(uid \<mapsto> []))"
  by (simp add: add_user_def Let_def split: option.splits)

lemma trusted_devices_update_user:
  "trusted_devices (snd (update_user uid ud db)) = trusted_devices db"
  by (simp add: update_user_def Let_def split: option.splits)

lemma trusted_devices_add_login_record:
  "trusted_devices (snd (add_login_record now uid login db)) = trusted_devices db"
  by (simp add: add_login_record_def Let_def split: option.splits)

lemma devices_distinct_add_trusted_device:
  "devices_distinct db \<Longrightarrow> devices_distinct (snd (add_trusted_device uid dev db))"
  by (auto simp add: devices_distinct_def add_trusted_device_def Let_def
        split: option.splits if_splits)

lemma devices_distinct_call:
  "devices_distinct db \<Longrightarrow> devices_distinct (call_database c db)"
proof (cases c)
  case (AddUser uid ud)
  assume "devices_distinct db"
  then show ?thesis
    by (simp add: AddUser devices_distinct_def trusted_devices_add_user)
next
  case (UpdateUser uid ud)
  assume "devices_distinct db"
  then show ?thesis
    by (simp add: UpdateUser devices_distinct_def trusted_devices_update_user)
next
  case (AddLoginRecord now uid login)
  assume "devices_distinct db"
  then show ?thesis
    by (simp add: AddLoginRecord devices_distinct_def trusted_devices_add_login_record)
next
  case (AddTrustedDevice uid dev)
  assume "devices_distinct db"
  then show ?thesis
    by (simp add: AddTrustedDevice devices_distinct_add_trusted_device)
qed

lemma devices_distinct_run:
  "devices_distinct db \<Longrightarrow> devices_distinct (run_database cs db)"
  by (induction cs arbitrary: db) (simp_all add: devices_distinct_call)

lemma count_list_distinct: "distinct xs \<Longrightarrow> x \<in> set xs \<Longrightarrow> count_list xs x = 1"
  by (induction xs) (auto simp: count_list_0_iff)

lemma add_trusted_device_success:
  "users db uid \<noteq> None \<Longrightarrow> fst (add_trusted_device uid dev db)"
  by (simp add: add_trusted_device_def Let_def)

lemma users_add_trusted_device:
  "users (snd (add_trusted_device uid dev db)) = users db"
  by (simp add: add_trusted_device_def Let_def)

lemma add_trusted_device_member:
  "users db uid \<noteq> None \<Longrightarrow>
   \<exists>devs. trusted_devices (snd (add_trusted_device uid dev db)) uid = Some devs \<and> dev \<in> set devs"
  by (auto simp add: add_trusted_device_def Let_def split: option.splits)

lemma add_trusted_device_present:
  "trusted_devices db uid = Some devs \<Longrightarrow> dev \<in> set devs \<Longrightarrow>
   snd (add_trusted_device uid dev db) = db"
  by (simp add: add_trusted_device_def Let_def)




text \<open>
  Claim C7.  For an existing user, the location tag is raised exactly when the login
  context carries a location, the user's login history is non-empty and no historical
  record has that exact location string; the result lists each tag once, and
  \<^verbatim>\<open>is_suspicious\<close> is true exactly when two or more tags were raised.
\<close>

theorem unusual_location_tag:
  assumes "users db uid \<noteq> None"
  shows "\<exists>r. compare_with_current hour_of current_hour uid current_data db = Inr r
     \<and> (''Unusual location'' \<in> set (cmp_anomalies r) \<longleftrightarrow>
          (\<exists>location logins. ld_location current_data = Some location
             \<and> historical_logins db uid = Some logins \<and> logins \<noteq> []
             \<and> (\<forall>l \<in> set logins. lr_location l \<noteq> Some location)))
     \<and> distinct (cmp_anomalies r)
     \<and> cmp_anomaly_count r = length (cmp_anomalies r)
     \<and> (cmp_is_suspicious r \<longleftrightarrow> 2 \<le> length (cmp_anomalies r))"
proof -
  have "''Unusual location'' \<in>
      set (check_login_time hour_of current_hour uid db
             (check_location uid current_data db (check_device uid current_data db [])))
    \<longleftrightarrow> (\<exists>location logins. ld_location current_data = Some location
             \<and> historical_logins db uid = Some logins \<and> logins \<noteq> []
             \<and> (\<forall>l \<in> set logins. lr_location l \<noteq> Some location))"
    by (simp add: check_login_time_other check_location_tag check_device_other)
  moreover have "distinct
      (check_login_time hour_of current_hour uid db
         (check_location uid current_data db (check_device uid current_data db [])))"
    by (rule anomalies_distinct)
  ultimately show ?thesis
    using assms by (auto simp add: compare_with_current_def Let_def)
qed

theorem unusual_location_tag_witness:
  "compare_with_current iso_hour 10 ''7''
     \<lparr>ld_username = None, ld_password = None, ld_face_data = None,
      ld_typing_pattern = None, ld_ip_address = None,
      ld_device_info = Some ''Unknown Device'', ld_location = Some ''C''\<rparr>
     (run_database
        [AddUser ''7'' \<lparr>usr_username = Some ''alice'', usr_face_data = None,
                        usr_typing_pattern = None, usr_balance = None\<rparr>,
         AddLoginRecord ''2025-05-16T09:00:01'' ''7''
           \<lparr>lr_timestamp = Some ''2025-05-16T09:00:00'', lr_device_info = None,
            lr_location = Some ''A'', lr_ip_address = None,
            lr_success = Some True, lr_risk_level = None\<rparr>,
         AddLoginRecord ''2025-05-16T11:00:01'' ''7''
           \<lparr>lr_timestamp = Some ''2025-05-16T11:00:00'', lr_device_info = None,
            lr_location = Some ''B'', lr_ip_address = None,
            lr_success = Some True, lr_risk_level = None\<rparr>]
        new_user_database)
   = Inr \<lparr>cmp_user_id = ''7'', cmp_anomalies = [''Untrusted device'', ''Unusual location''],
          cmp_anomaly_count = 2, cmp_is_suspicious = True\<rparr>
   \<and> compare_with_current iso_hour 10 ''7''
     \<lparr>ld_username = None, ld_password = None, ld_face_data = None,
      ld_typing_pattern = None, ld_ip_address = None,
      ld_device_info = Some ''Unknown Device'', ld_location = Some ''A''\<rparr>
     (run_database
        [AddUser ''7'' \<lparr>usr_username = Some ''alice'', usr_face_data = None,
                        usr_typing_pattern = None, usr_balance = None\<rparr>,
         AddLoginRecord ''2025-05-16T09:00:01'' ''7''
           \<lparr>lr_timestamp = Some ''2025-05-16T09:00:00'', lr_device_info = None,
            lr_location = Some ''A'', lr_ip_address = None,
            lr_success = Some True, lr_risk_level = None\<rparr>,
         AddLoginRecord ''2025-05-16T11:00:01'' ''7''
           \<lparr>lr_timestamp = Some ''2025-05-16T11:00:00'', lr_device_info = None,
            lr_location = Some ''B'', lr_ip_address = None,
            lr_success = Some True, lr_risk_level = None\<rparr>]
        new_user_database)
   = Inr \<lparr>cmp_user_id = ''7'', cmp_anomalies = [''Untrusted device''],
          cmp_anomaly_count = 1, cmp_is_suspicious = False\<rparr>"
  using unusual_location_tag
          [where db = "run_database
              [AddUser ''7'' \<lparr>usr_username = Some ''alice'', usr_face_data = None,
                              usr_typing_pattern = None, usr_balance = None\<rparr>,
               AddLoginRecord ''2025-05-16T09:00:01'' ''7''
                 \<lparr>lr_timestamp = Some ''2025-05-16T09:00:00'', lr_device_info = None,
                  lr_location = Some ''A'', lr_ip_address = None,
                  lr_success = Some True, lr_risk_level = None\<rparr>,
               AddLoginRecord ''2025-05-16T11:00:01'' ''7''
                 \<lparr>lr_timestamp = Some ''2025-05-16T11:00:00'', lr_device_info = None,
                  lr_location = Some ''B'', lr_ip_address = None,
                  lr_success = Some True, lr_risk_level = None\<rparr>]
              new_user_database"
             and uid = "''7''" and hour_of = iso_hour and current_hour = 10
             and current_data = "\<lparr>ld_username = None, ld_password = None, ld_face_data = None,
                ld_typing_pattern = None, ld_ip_address = None,
                ld_device_info = Some ''Unknown Device'', ld_location = Some ''C''\<rparr>"]
        unusual_location_tag
          [where db = "run_database
              [AddUser ''7'' \<lparr>usr_username = Some ''alice'', usr_face_data = None,
                              usr_typing_pattern = None, usr_balance = None\<rparr>,
               AddLoginRecord ''2025-05-16T09:00:01'' ''7''
                 \<lparr>lr_timestamp = Some ''2025-05-16T09:00:00'', lr_device_info = None,
                  lr_location = Some ''A'', lr_ip_address = None,
                  lr_success = Some True, lr_risk_level = None\<rparr>,
               AddLoginRecord ''2025-05-16T11:00:01'' ''7''
                 \<lparr>lr_timestamp = Some ''2025-05-16T11:00:00'', lr_device_info = None,
                  lr_location = Some ''B'', lr_ip_address = None,
                  lr_success = Some True, lr_risk_level = None\<rparr>]
              new_user_database"
             and uid = "''7''" and hour_of = iso_hour and current_hour = 10
             and current_data = "\<lparr>ld_username = None, ld_password = None, ld_face_data = None,
                ld_typing_pattern = None, ld_ip_address = None,
                ld_device_info = Some ''Unknown Device'', ld_location = Some ''A''\<rparr>"]
  by (simp add: compare_with_current_def check_device_def check_location_def
        check_login_time_def add_user_def add_trusted_device_def add_login_record_def
        new_user_database_def login_hour_def iso_hour_def digit_of_def Let_def)

text \<open>
  Claim C8.  In every database state the class's own operations produce from the empty
  database, for an existing user and any device fingerprint, two calls of
  \<^verbatim>\<open>add_trusted_device\<close> with the same fingerprint both return true, the second call
  leaves the database as the first left it, and the user's trusted-device list then holds
  exactly one entry for that fingerprint.
\<close>

theorem add_trusted_device_idempotent:
  assumes "users (run_database cs new_user_database) uid \<noteq> None"
  shows "fst (add_trusted_device uid dev (run_database cs new_user_database))
   \<and> fst (add_trusted_device uid dev
            (snd (add_trusted_device uid dev (run_database cs new_user_database))))
   \<and> snd (add_trusted_device uid dev
            (snd (add_trusted_device uid dev (run_database cs new_user_database))))
       = snd (add_trusted_device uid dev (run_database cs new_user_database))
   \<and> (\<exists>devs. trusted_devices
                (snd (add_trusted_device uid dev
                   (snd (add_trusted_device uid dev (run_database cs new_user_database))))) uid
              = Some devs \<and> count_list devs dev = 1)"
proof -
  define db where "db = run_database cs new_user_database"
  define db1 where "db1 = snd (add_trusted_device uid dev db)"
  have inv: "devices_distinct db1"
    unfolding db1_def db_def
    by (intro devices_distinct_add_trusted_device devices_distinct_run devices_distinct_new)
  have u: "users db uid \<noteq> None" using assms by (simp add: db_def)
  then have u1: "users db1 uid \<noteq> None" by (simp add: db1_def users_add_trusted_device)
  from add_trusted_device_member[OF u, of dev] obtain devs
    where devs: "trusted_devices db1 uid = Some devs" "dev \<in> set devs"
    by (auto simp: db1_def)
  have same: "snd (add_trusted_device uid dev db1) = db1"
    by (rule add_trusted_device_present[OF devs])
  from inv devs(1) have "distinct devs" by (simp add: devices_distinct_def)
  then have "count_list devs dev = 1" using devs(2) by (rule count_list_distinct)
  with devs(1) same add_trusted_device_success[OF u, of dev]
    add_trusted_device_success[OF u1, of dev]
  show ?thesis
    unfolding db_def[symmetric] db1_def[symmetric] by simp
qed

theorem add_trusted_device_idempotent_witness:
  "fst (add_trusted_device ''9999'' ''Test Device''
         (snd (add_trusted_device ''9999'' ''Test Device''
            (run_database
               [AddUser ''9999'' \<lparr>usr_username = Some ''test_user'',
                                  usr_face_data = Some ''test_face_data'',
                                  usr_typing_pattern = Some ''test_typing_pattern'',
                                  usr_balance = Some 1000\<rparr>,
                AddTrustedDevice ''9999'' ''Laptop'']
               new_user_database))))
   \<and> trusted_devices
       (snd (add_trusted_device ''9999'' ''Test Device''
         (snd (add_trusted_device ''9999'' ''Test Device''
            (run_database
               [AddUser ''9999'' \<lparr>usr_username = Some ''test_user'',
                                  usr_face_data = Some ''test_face_data'',
                                  usr_typing_pattern = Some ''test_typing_pattern'',
                                  usr_balance = Some 1000\<rparr>,
                AddTrustedDevice ''9999'' ''Laptop'']
               new_user_database))))) ''9999''
     = Some [''Laptop'', ''Test Device'']"
  using add_trusted_device_idempotent
          [where cs = "[AddUser ''9999'' \<lparr>usr_username = Some ''test_user'',
                                  usr_face_data = Some ''test_face_data'',
                                  usr_typing_pattern = Some ''test_typing_pattern'',
                                  usr_balance = Some 1000\<rparr>,
                        AddTrustedDevice ''9999'' ''Laptop'']"
             and uid = "''9999''" and dev = "''Test Device''"]
  by (simp add: add_user_def add_trusted_device_def new_user_database_def Let_def)

end
